theory Spec2Isabelle
  imports Main
begin

section \<open>JavaScript values read from the DOM and from storage\<close>

text \<open>
  \<^verbatim>\<open>getAttribute\<close> and \<^verbatim>\<open>localStorage.getItem\<close> return a string or \<^verbatim>\<open>null\<close>;
  a missing \<^verbatim>\<open>dataset\<close> entry reads as \<^verbatim>\<open>undefined\<close>. The DOM itself stores an
  attribute as present (with its string) or absent.
\<close>

datatype jsval = Undefined | Null | Str string

text \<open>Truthiness as used by \<^verbatim>\<open>if (saved)\<close>, \<^verbatim>\<open>if (currentTheme)\<close>, \<^verbatim>\<open>!certSrc\<close>.\<close>

fun truthy :: "jsval \<Rightarrow> bool" where
  "truthy Undefined = False"
| "truthy Null = False"
| "truthy (Str t) = (t \<noteq> [])"

text \<open>String conversion, as done by a template literal or a DOMString setter.\<close>

fun to_string :: "jsval \<Rightarrow> string" where
  "to_string Undefined = ''undefined''"
| "to_string Null = ''null''"
| "to_string (Str t) = t"

definition getAttribute :: "string option \<Rightarrow> jsval" where
  "getAttribute a = (case a of None \<Rightarrow> Null | Some t \<Rightarrow> Str t)"

definition dataset :: "string option \<Rightarrow> jsval" where
  "dataset a = (case a of None \<Rightarrow> Undefined | Some t \<Rightarrow> Str t)"

section \<open>ThemeManager and PDFExport (main.js)\<close>

datatype error = SecurityError | QuotaExceededError | TypeError

text \<open>
  The environment of the page: the answer of
  \<^verbatim>\<open>window.matchMedia('(prefers-color-scheme: dark)').matches\<close>, and whether the platform
  raises on a read of or a write to \<^verbatim>\<open>localStorage\<close> (blocked storage, exceeded quota).
\<close>

record env =
  prefersDark :: bool
  getItem_raises :: "error option"
  setItem_raises :: "error option"

text \<open>
  The part of the page the theme writers touch: the \<^verbatim>\<open>data-theme\<close> attribute of the
  document element, the contents of \<^verbatim>\<open>localStorage\<close>, whether \<^verbatim>\<open>#theme-toggle\<close>
  exists and has its click listener, the pending \<^verbatim>\<open>setTimeout\<close> callbacks of
  \<^verbatim>\<open>exportPDF\<close> (each one is its closure's captured \<^verbatim>\<open>currentTheme\<close>; all have the
  same delay of 100 ms, so they fire in the order they were scheduled), and a log of
  the calls of \<^verbatim>\<open>window.print()\<close>, each with the \<^verbatim>\<open>data-theme\<close> it saw.
\<close>

record page =
  data_theme :: "string option"
  localStorage :: "string \<Rightarrow> string option"
  toggle_button :: bool
  toggle_wired :: bool
  timers :: "jsval list"
  printed :: "string option list"

definition STORAGE_KEY :: string where
  "STORAGE_KEY = ''cv-color-scheme''"

text \<open>
  A call either returns normally with the new page (\<open>Inr\<close>) or throws (\<open>Inl\<close>); a throw
  carries the page as the mutations done before it left it.
\<close>

type_synonym outcome = "(error \<times> page) + page"

fun page_of :: "outcome \<Rightarrow> page" where
  "page_of (Inl (err, s)) = s"
| "page_of (Inr s) = s"

fun thrown :: "outcome \<Rightarrow> error option" where
  "thrown (Inl (err, s)) = Some err"
| "thrown (Inr s) = None"

definition getItem :: "env \<Rightarrow> page \<Rightarrow> string \<Rightarrow> error + jsval" where
  "getItem e s k =
     (case getItem_raises e of
        Some err \<Rightarrow> Inl err
      | None \<Rightarrow> Inr (case localStorage s k of None \<Rightarrow> Null | Some v \<Rightarrow> Str v))"

definition setItem :: "env \<Rightarrow> page \<Rightarrow> string \<Rightarrow> string \<Rightarrow> outcome" where
  "setItem e s k v =
     (case setItem_raises e of
        Some err \<Rightarrow> Inl (err, s)
      | None \<Rightarrow> Inr (s\<lparr>localStorage := (localStorage s)(k \<mapsto> v)\<rparr>))"

definition loadTheme :: "env \<Rightarrow> page \<Rightarrow> outcome" where
  "loadTheme e s =
     (case getItem e s STORAGE_KEY of
        Inl err \<Rightarrow> Inl (err, s)
      | Inr saved \<Rightarrow>
          if truthy saved then Inr (s\<lparr>data_theme := Some (to_string saved)\<rparr>)
          else Inr s)"

definition ThemeManager_init :: "env \<Rightarrow> page \<Rightarrow> outcome" where
  "ThemeManager_init e s =
     (if \<not> toggle_button s then Inr s
      else case loadTheme e s of
             Inl x \<Rightarrow> Inl x
           | Inr s' \<Rightarrow> Inr (s'\<lparr>toggle_wired := True\<rparr>))"

definition switchTheme :: "env \<Rightarrow> page \<Rightarrow> outcome" where
  "switchTheme e s =
     (let current = getAttribute (data_theme s);
          next = (if current = Str ''dark'' then ''light''
                  else if current = Str ''light'' then ''dark''
                  else if prefersDark e then ''light'' else ''dark'')
      in setItem e (s\<lparr>data_theme := Some next\<rparr>) STORAGE_KEY next)"

text \<open>
  \<^verbatim>\<open>exportPDF\<close> up to its \<^verbatim>\<open>setTimeout\<close>, and the callback it schedules.
\<close>

definition exportPDF :: "page \<Rightarrow> page" where
  "exportPDF s =
     (let currentTheme = getAttribute (data_theme s)
      in s\<lparr>data_theme := Some ''light'', timers := timers s @ [currentTheme]\<rparr>)"

definition exportPDF_callback :: "jsval \<Rightarrow> page \<Rightarrow> page" where
  "exportPDF_callback currentTheme s =
     (let s1 = s\<lparr>printed := printed s @ [data_theme s]\<rparr>
      in if truthy currentTheme then s1\<lparr>data_theme := Some (to_string currentTheme)\<rparr>
         else s1\<lparr>data_theme := None\<rparr>)"

text \<open>
  The event loop: handlers run to completion one at a time. An exception that leaves a
  click handler is reported by the browser and the page goes on as the handler left it.
\<close>

datatype event = ToggleClick | ExportClick | TimerFires

fun dispatch :: "env \<Rightarrow> event \<Rightarrow> page \<Rightarrow> page" where
  "dispatch e ToggleClick s = page_of (switchTheme e s)"
| "dispatch e ExportClick s = exportPDF s"
| "dispatch e TimerFires s =
     (case timers s of
        [] \<Rightarrow> s
      | c # cs \<Rightarrow> exportPDF_callback c (s\<lparr>timers := cs\<rparr>))"

fun run :: "env \<Rightarrow> event list \<Rightarrow> page \<Rightarrow> page" where
  "run e [] s = s"
| "run e (ev # evs) s = run e evs (dispatch e ev s)"

text \<open>The name the environment prefers, and its opposite.\<close>

definition preferred :: "env \<Rightarrow> string" where
  "preferred e = (if prefersDark e then ''dark'' else ''light'')"

definition inverse_preferred :: "env \<Rightarrow> string" where
  "inverse_preferred e = (if prefersDark e then ''light'' else ''dark'')"

definition persisted :: "page \<Rightarrow> string option" where
  "persisted s = localStorage s STORAGE_KEY"

section \<open>NavHighlight (main.js)\<close>

text \<open>
  A navigation link: its \<^verbatim>\<open>href\<close> attribute (absent or a string) and its class list,
  an ordered set of tokens.
\<close>

record nav_link =
  href :: "string option"
  classList :: "string list"

definition ACTIVE :: string where
  "ACTIVE = ''nav__link--active''"

definition classList_add :: "string \<Rightarrow> string list \<Rightarrow> string list" where
  "classList_add c cs = (if c \<in> set cs then cs else cs @ [c])"

definition classList_remove :: "string \<Rightarrow> string list \<Rightarrow> string list" where
  "classList_remove c cs = filter (\<lambda>x. x \<noteq> c) cs"

definition classList_contains :: "string \<Rightarrow> string list \<Rightarrow> bool" where
  "classList_contains c cs = (c \<in> set cs)"

text \<open>
  \<^verbatim>\<open>this.links.forEach(link => ...)\<close>: every iteration reads and writes its own link
  only, so the loop is a map over the node list.
\<close>

definition setActive :: "jsval \<Rightarrow> nav_link list \<Rightarrow> nav_link list" where
  "setActive sid links =
     map (\<lambda>link.
            if getAttribute (href link) = Str (''#'' @ to_string sid)
            then link\<lparr>classList := classList_add ACTIVE (classList link)\<rparr>
            else link\<lparr>classList := classList_remove ACTIVE (classList link)\<rparr>)
         links"

text \<open>
  An intersection entry: \<^verbatim>\<open>entry.isIntersecting\<close> and the \<^verbatim>\<open>id\<close> attribute of
  \<^verbatim>\<open>entry.target\<close>.
\<close>

record entry =
  isIntersecting :: bool
  target_id :: "string option"

fun handleIntersect :: "entry list \<Rightarrow> nav_link list \<Rightarrow> nav_link list" where
  "handleIntersect [] links = links"
| "handleIntersect (en # ens) links =
     handleIntersect ens
       (if isIntersecting en then setActive (getAttribute (target_id en)) links else links)"

definition is_active :: "nav_link \<Rightarrow> bool" where
  "is_active link = classList_contains ACTIVE (classList link)"

section \<open>CertModal\<close>

text \<open>
  The trigger element with its \<^verbatim>\<open>data-cert\<close> and \<^verbatim>\<open>data-title\<close> attributes, and the
  modal's part of the page: \<^verbatim>\<open>#cert-modal\<close> (it exists whenever a listener of
  \<^verbatim>\<open>CertModal.init\<close> runs) with its \<^verbatim>\<open>hidden\<close> flag, \<^verbatim>\<open>#cert-modal-img\<close> and
  \<^verbatim>\<open>#cert-modal-title\<close> (either may be missing, then \<^verbatim>\<open>getElementById\<close> gave
  \<^verbatim>\<open>null\<close>), whether the close button exists, the body's \<^verbatim>\<open>overflow\<close> style and
  whether the close button holds the focus.
\<close>

record thumb =
  data_cert :: "string option"
  data_title :: "string option"

record img =
  src :: string
  alt :: string

record modal =
  hidden :: bool
  modalImg :: "img option"
  modalTitle :: "string option"
  closeBtn :: bool
  body_overflow :: string
  closeBtn_focused :: bool

text \<open>The setter of \<^verbatim>\<open>textContent\<close> takes \<^verbatim>\<open>null\<close> and \<^verbatim>\<open>undefined\<close> as the empty string.\<close>

fun textContent_of :: "jsval \<Rightarrow> string" where
  "textContent_of (Str t) = t"
| "textContent_of v = []"

text \<open>The body of \<^verbatim>\<open>open\<close> after the reads of the dataset, shared by both versions.\<close>

definition show_cert :: "jsval \<Rightarrow> jsval \<Rightarrow> modal \<Rightarrow> (error \<times> modal) + modal" where
  "show_cert certSrc certTitle m =
     (case modalImg m of
        None \<Rightarrow> Inl (TypeError, m)
      | Some i \<Rightarrow>
          let m1 = m\<lparr>modalImg :=
                       Some (i\<lparr>src := to_string certSrc,
                               alt := ''Certificado '' @ to_string certTitle\<rparr>)\<rparr>
          in case modalTitle m1 of
               None \<Rightarrow> Inl (TypeError, m1)
             | Some t \<Rightarrow>
                 Inr (m1\<lparr>modalTitle := Some (textContent_of certTitle),
                         hidden := False,
                         body_overflow := ''hidden'',
                         closeBtn_focused := (closeBtn m1 \<or> closeBtn_focused m1)\<rparr>))"

text \<open>\<^verbatim>\<open>CertModal.open(thumb)\<close> of src/main.js.\<close>

definition CertModal_open :: "thumb \<Rightarrow> modal \<Rightarrow> (error \<times> modal) + modal" where
  "CertModal_open th m =
     (let certSrc = dataset (data_cert th);
          certTitle = dataset (data_title th)
      in show_cert certSrc certTitle m)"

text \<open>
  \<^verbatim>\<open>CertModal.open(card)\<close> of the other copy of main.js (the one that wires
  \<^verbatim>\<open>.cert-card\<close> elements), which returns early on a missing source.
\<close>

definition CertModal_open_card :: "thumb \<Rightarrow> modal \<Rightarrow> (error \<times> modal) + modal" where
  "CertModal_open_card crd m =
     (let certSrc = dataset (data_cert crd);
          certTitle = dataset (data_title crd)
      in if \<not> truthy certSrc then Inr m
         else show_cert certSrc certTitle m)"

definition CertModal_close :: "modal \<Rightarrow> modal" where
  "CertModal_close m = m\<lparr>hidden := True, body_overflow := []\<rparr>"

section \<open>Well-formed pages and example inputs\<close>

text \<open>
  No writer of this program sets \<^verbatim>\<open>data-theme\<close> to the empty string; a page is in that
  sense well formed when neither the attribute nor a pending capture is empty.
\<close>

definition nonempty_theme :: "page \<Rightarrow> bool" where
  "nonempty_theme s = (data_theme s \<noteq> Some [] \<and> Str [] \<notin> set (timers s))"

definition env_dark :: env where
  "env_dark = \<lparr>prefersDark = True, getItem_raises = None, setItem_raises = None\<rparr>"

definition env_blocked :: env where
  "env_blocked =
     \<lparr>prefersDark = True, getItem_raises = Some SecurityError,
      setItem_raises = Some QuotaExceededError\<rparr>"

definition page_unset :: page where
  "page_unset =
     \<lparr>data_theme = None, localStorage = Map.empty, toggle_button = True,
      toggle_wired = False, timers = [], printed = []\<rparr>"

definition page_dark :: page where
  "page_dark =
     \<lparr>data_theme = Some ''dark'', localStorage = [STORAGE_KEY \<mapsto> ''dark''],
      toggle_button = True, toggle_wired = True, timers = [], printed = []\<rparr>"

definition page_legacy :: page where
  "page_legacy =
     \<lparr>data_theme = Some ''modern-tech'', localStorage = [''cv-theme'' \<mapsto> ''modern-tech''],
      toggle_button = True, toggle_wired = True, timers = [], printed = []\<rparr>"

definition modal_closed :: modal where
  "modal_closed =
     \<lparr>hidden = True, modalImg = Some \<lparr>src = [], alt = []\<rparr>, modalTitle = Some [],
      closeBtn = True, body_overflow = [], closeBtn_focused = False\<rparr>"

definition nav_links :: "nav_link list" where
  "nav_links =
     [\<lparr>href = Some ''#about'', classList = [''nav__link'', ''nav__link--active'']\<rparr>,
      \<lparr>href = Some ''#skills'', classList = [''nav__link'']\<rparr>,
      \<lparr>href = None, classList = [''nav__link'']\<rparr>]"

definition batch_about_skills :: "entry list" where
  "batch_about_skills =
     [\<lparr>isIntersecting = True, target_id = Some ''about''\<rparr>,
      \<lparr>isIntersecting = True, target_id = Some ''skills''\<rparr>,
      \<lparr>isIntersecting = False, target_id = Some ''contact''\<rparr>]"

text \<open>The test of \<^verbatim>\<open>setActive\<close> on a link, read off the DOM state.\<close>

definition matches :: "jsval \<Rightarrow> nav_link \<Rightarrow> bool" where
  "matches sid link = (href link = Some (''#'' @ to_string sid))"

text \<open>
  A theme operation that completes before the next handler runs: a call of
  \<^verbatim>\<open>switchTheme\<close>, or a call of \<^verbatim>\<open>exportPDF\<close> followed at once by its callback. A page
  is settled when no export is pending and the attribute, not the empty string, equals
  the stored value.
\<close>

datatype operation = Toggle | Export

fun events_of :: "operation \<Rightarrow> event list" where
  "events_of Toggle = [ToggleClick]"
| "events_of Export = [ExportClick, TimerFires]"

definition settled :: "page \<Rightarrow> bool" where
  "settled s = (timers s = [] \<and> data_theme s \<noteq> Some [] \<and> data_theme s = persisted s)"

section \<open>The theme toggle\<close>

lemma switchTheme_attr:
  "data_theme (page_of (switchTheme e s)) =
     Some (if data_theme s = Some ''dark'' then ''light''
           else if data_theme s = Some ''light'' then ''dark''
           else inverse_preferred e)"
  by (cases "setItem_raises e")
     (auto simp: switchTheme_def setItem_def Let_def getAttribute_def inverse_preferred_def
           split: option.splits)

lemma switchTheme_written:
  "setItem_raises e = None \<Longrightarrow>
   switchTheme e s =
     Inr (s\<lparr>data_theme := data_theme (page_of (switchTheme e s)),
            localStorage := (localStorage s)(STORAGE_KEY := data_theme (page_of (switchTheme e s)))\<rparr>)"
  by (simp add: switchTheme_def setItem_def Let_def)

lemma switchTheme_raised:
  "setItem_raises e = Some err \<Longrightarrow>
   switchTheme e s = Inl (err, s\<lparr>data_theme := data_theme (page_of (switchTheme e s))\<rparr>)"
  by (simp add: switchTheme_def setItem_def Let_def)

lemma switchTheme_persisted:
  "setItem_raises e = None \<Longrightarrow>
   persisted (page_of (switchTheme e s)) = data_theme (page_of (switchTheme e s))"
  by (simp add: switchTheme_def setItem_def Let_def persisted_def)

lemma toggles_from_explicit:
  "setItem_raises e = None \<Longrightarrow>
   (data_theme s = Some ''dark'' \<longrightarrow>
      data_theme (run e (replicate N ToggleClick) s) = Some (if even N then ''dark'' else ''light'') \<and>
      (0 < N \<longrightarrow> persisted (run e (replicate N ToggleClick) s) = Some (if even N then ''dark'' else ''light''))) \<and>
   (data_theme s = Some ''light'' \<longrightarrow>
      data_theme (run e (replicate N ToggleClick) s) = Some (if even N then ''light'' else ''dark'') \<and>
      (0 < N \<longrightarrow> persisted (run e (replicate N ToggleClick) s) = Some (if even N then ''light'' else ''dark'')))"
proof (induction N arbitrary: s)
  case 0
  then show ?case by simp
next
  case (Suc N)
  let ?s' = "page_of (switchTheme e s)"
  have run: "run e (replicate (Suc N) ToggleClick) s = run e (replicate N ToggleClick) ?s'"
    by simp
  have attr: "data_theme ?s' = Some (if data_theme s = Some ''dark'' then ''light''
           else if data_theme s = Some ''light'' then ''dark''
           else inverse_preferred e)" by (rule switchTheme_attr)
  have pers: "persisted ?s' = data_theme ?s'"
    using Suc.prems by (rule switchTheme_persisted)
  show ?case
  proof (cases N)
    case 0
    then show ?thesis using attr pers by simp
  next
    case (Suc M)
    then show ?thesis using Suc.IH[OF Suc.prems, of ?s'] attr unfolding run by auto
  qed
qed

lemma toggles_from_unset:
  assumes ok: "setItem_raises e = None" and unset: "data_theme s = None"
  shows "data_theme (run e (replicate (Suc M) ToggleClick) s) =
           Some (if even M then inverse_preferred e else preferred e)"
    and "persisted (run e (replicate (Suc M) ToggleClick) s) =
           Some (if even M then inverse_preferred e else preferred e)"
proof -
  let ?s' = "page_of (switchTheme e s)"
  have attr: "data_theme ?s' = Some (inverse_preferred e)"
    using unset by (simp add: switchTheme_attr)
  have pers: "persisted ?s' = Some (inverse_preferred e)"
    using switchTheme_persisted[OF ok, of s] attr by simp
  have run: "run e (replicate (Suc M) ToggleClick) s = run e (replicate M ToggleClick) ?s'"
    by simp
  show "data_theme (run e (replicate (Suc M) ToggleClick) s) =
           Some (if even M then inverse_preferred e else preferred e)"
    using toggles_from_explicit[OF ok, of ?s' M] attr unfolding run
    by (cases "prefersDark e") (simp_all add: inverse_preferred_def preferred_def)
  show "persisted (run e (replicate (Suc M) ToggleClick) s) =
           Some (if even M then inverse_preferred e else preferred e)"
  proof (cases M)
    case 0
    then show ?thesis using pers by simp
  next
    case (Suc K)
    then show ?thesis
      using toggles_from_explicit[OF ok, of ?s' M] attr unfolding run
      by (cases "prefersDark e") (simp_all add: inverse_preferred_def preferred_def)
  qed
qed

text \<open>
  C1. With a storage that accepts writes, one \<^verbatim>\<open>switchTheme\<close> maps an applied "dark" to
  "light", "light" to "dark" and an absent attribute to the opposite of the environment's
  preference, and sets the attribute and the stored key to that value. From an absent
  attribute, the stored value (and the attribute) after \<open>N\<close> toggles is untouched for
  \<open>N = 0\<close>, the opposite of the preference for odd \<open>N\<close> and the preference for even
  \<open>N > 0\<close>.
\<close>

theorem toggle_three_way_rule_alternates:
  assumes ok: "setItem_raises e = None"
  shows "(data_theme s = Some ''dark'' \<longrightarrow>
            switchTheme e s =
              Inr (s\<lparr>data_theme := Some ''light'',
                     localStorage := (localStorage s)(STORAGE_KEY \<mapsto> ''light'')\<rparr>)) \<and>
         (data_theme s = Some ''light'' \<longrightarrow>
            switchTheme e s =
              Inr (s\<lparr>data_theme := Some ''dark'',
                     localStorage := (localStorage s)(STORAGE_KEY \<mapsto> ''dark'')\<rparr>)) \<and>
         (data_theme s = None \<longrightarrow>
            switchTheme e s =
              Inr (s\<lparr>data_theme := Some (inverse_preferred e),
                     localStorage := (localStorage s)(STORAGE_KEY \<mapsto> inverse_preferred e)\<rparr>)) \<and>
         (data_theme s = None \<longrightarrow>
            persisted (run e (replicate N ToggleClick) s) =
              (if N = 0 then persisted s
               else Some (if odd N then inverse_preferred e else preferred e)) \<and>
            data_theme (run e (replicate N ToggleClick) s) =
              (if N = 0 then None
               else Some (if odd N then inverse_preferred e else preferred e)))"
proof (intro conjI impI)
  assume "data_theme s = Some ''dark''"
  then show "switchTheme e s =
              Inr (s\<lparr>data_theme := Some ''light'',
                     localStorage := (localStorage s)(STORAGE_KEY \<mapsto> ''light'')\<rparr>)"
    using switchTheme_written[OF ok, of s] by (simp add: switchTheme_attr)
next
  assume "data_theme s = Some ''light''"
  then show "switchTheme e s =
              Inr (s\<lparr>data_theme := Some ''dark'',
                     localStorage := (localStorage s)(STORAGE_KEY \<mapsto> ''dark'')\<rparr>)"
    using switchTheme_written[OF ok, of s] by (simp add: switchTheme_attr)
next
  assume "data_theme s = None"
  then show "switchTheme e s =
              Inr (s\<lparr>data_theme := Some (inverse_preferred e),
                     localStorage := (localStorage s)(STORAGE_KEY \<mapsto> inverse_preferred e)\<rparr>)"
    using switchTheme_written[OF ok, of s] by (simp add: switchTheme_attr)
next
  assume unset: "data_theme s = None"
  show "persisted (run e (replicate N ToggleClick) s) =
              (if N = 0 then persisted s
               else Some (if odd N then inverse_preferred e else preferred e))"
  proof (cases N)
    case 0
    then show ?thesis by simp
  next
    case (Suc M)
    then show ?thesis using toggles_from_unset(2)[OF ok unset, of M] by simp
  qed
next
  assume unset: "data_theme s = None"
  show "data_theme (run e (replicate N ToggleClick) s) =
              (if N = 0 then None
               else Some (if odd N then inverse_preferred e else preferred e))"
  proof (cases N)
    case 0
    then show ?thesis using unset by simp
  next
    case (Suc M)
    then show ?thesis using toggles_from_unset(1)[OF ok unset, of M] by simp
  qed
qed

theorem toggle_three_way_rule_alternates_witness:
  "setItem_raises env_dark = None \<and> data_theme page_unset = None \<and>
   switchTheme env_dark page_unset =
     Inr (page_unset\<lparr>data_theme := Some ''light'',
                     localStorage := (localStorage page_unset)(STORAGE_KEY \<mapsto> ''light'')\<rparr>) \<and>
   persisted (run env_dark (replicate 3 ToggleClick) page_unset) = Some ''light'' \<and>
   persisted (run env_dark (replicate 4 ToggleClick) page_unset) = Some ''dark''"
proof -
  have ok: "setItem_raises env_dark = None" by (simp add: env_dark_def)
  have unset: "data_theme page_unset = None" by (simp add: page_unset_def)
  have pd: "prefersDark env_dark" by (simp add: env_dark_def)
  show ?thesis
    using ok unset toggle_three_way_rule_alternates [OF ok, of page_unset 3]
      toggle_three_way_rule_alternates [OF ok, of page_unset 4] pd
    by (simp add: inverse_preferred_def preferred_def)
qed


section \<open>Unrecognised attribute values; storage is never read\<close>

text \<open>
  C9. When the applied attribute is neither "light" nor "dark" (absent, or any other
  string such as a palette name of the old theme selector), one \<^verbatim>\<open>switchTheme\<close> sets it
  to the opposite of the environment's preference, and the stored key too when the write
  is accepted. After any \<^verbatim>\<open>switchTheme\<close> the attribute is "light" or "dark", and the
  stored key equals it when the write is accepted.
\<close>

theorem toggle_normalizes_unrecognized:
  "(data_theme s \<noteq> Some ''light'' \<and> data_theme s \<noteq> Some ''dark'' \<longrightarrow>
      data_theme (page_of (switchTheme e s)) = Some (inverse_preferred e) \<and>
      (setItem_raises e = None \<longrightarrow>
         persisted (page_of (switchTheme e s)) = Some (inverse_preferred e))) \<and>
   (data_theme (page_of (switchTheme e s)) = Some ''light'' \<or>
    data_theme (page_of (switchTheme e s)) = Some ''dark'') \<and>
   (setItem_raises e = None \<longrightarrow>
      persisted (page_of (switchTheme e s)) = data_theme (page_of (switchTheme e s)))"
proof (intro conjI impI)
  assume u: "data_theme s \<noteq> Some ''light'' \<and> data_theme s \<noteq> Some ''dark''"
  then show a: "data_theme (page_of (switchTheme e s)) = Some (inverse_preferred e)"
    by (simp add: switchTheme_attr)
  assume "setItem_raises e = None"
  then show "persisted (page_of (switchTheme e s)) = Some (inverse_preferred e)"
    using a by (simp add: switchTheme_persisted)
next
  show "data_theme (page_of (switchTheme e s)) = Some ''light'' \<or>
        data_theme (page_of (switchTheme e s)) = Some ''dark''"
    by (simp add: switchTheme_attr inverse_preferred_def)
next
  assume "setItem_raises e = None"
  then show "persisted (page_of (switchTheme e s)) = data_theme (page_of (switchTheme e s))"
    by (rule switchTheme_persisted)
qed

theorem toggle_normalizes_unrecognized_witness:
  "data_theme page_legacy \<noteq> Some ''light'' \<and> data_theme page_legacy \<noteq> Some ''dark'' \<and>
   setItem_raises env_dark = None \<and>
   data_theme (page_of (switchTheme env_dark page_legacy)) = Some ''light'' \<and>
   persisted (page_of (switchTheme env_dark page_legacy)) = Some ''light''"
  using toggle_normalizes_unrecognized [of page_legacy env_dark]
  by (simp add: page_legacy_def env_dark_def inverse_preferred_def)

text \<open>
  C10. \<^verbatim>\<open>switchTheme\<close> does not read storage: two runs that agree on the applied attribute
  and on the environment's preference, and differ arbitrarily in everything else
  (the storage contents among it), apply the same next theme, and store the same value
  when both writes are accepted.
\<close>

theorem toggle_ignores_storage:
  assumes "data_theme s1 = data_theme s2" and "prefersDark e1 = prefersDark e2"
  shows "data_theme (page_of (switchTheme e1 s1)) = data_theme (page_of (switchTheme e2 s2)) \<and>
         (setItem_raises e1 = None \<and> setItem_raises e2 = None \<longrightarrow>
            persisted (page_of (switchTheme e1 s1)) = persisted (page_of (switchTheme e2 s2)))"
  using assms
  by (simp add: switchTheme_attr switchTheme_persisted inverse_preferred_def)

theorem toggle_ignores_storage_witness:
  "data_theme page_unset = data_theme (page_unset\<lparr>localStorage := [STORAGE_KEY \<mapsto> ''dark'']\<rparr>) \<and>
   prefersDark env_dark = prefersDark env_dark \<and>
   data_theme (page_of (switchTheme env_dark page_unset)) =
     data_theme (page_of (switchTheme env_dark (page_unset\<lparr>localStorage := [STORAGE_KEY \<mapsto> ''dark'']\<rparr>))) \<and>
   persisted (page_of (switchTheme env_dark page_unset)) =
     persisted (page_of (switchTheme env_dark (page_unset\<lparr>localStorage := [STORAGE_KEY \<mapsto> ''dark'']\<rparr>)))"
  using toggle_ignores_storage [of page_unset "page_unset\<lparr>localStorage := [STORAGE_KEY \<mapsto> ''dark'']\<rparr>" env_dark env_dark]
  by (simp add: page_unset_def env_dark_def)

section \<open>The print exporter\<close>

lemma export_completes:
  assumes "timers s = []" and "data_theme s \<noteq> Some []"
  shows "run e [ExportClick, TimerFires] s = s\<lparr>printed := printed s @ [Some ''light'']\<rparr>"
  using assms
  by (cases "data_theme s")
     (simp_all add: exportPDF_def exportPDF_callback_def getAttribute_def Let_def)

lemma exportPDF_forces_light:
  "exportPDF s = s\<lparr>data_theme := Some ''light'', timers := timers s @ [getAttribute (data_theme s)]\<rparr>"
  by (simp add: exportPDF_def Let_def)

text \<open>
  C2. \<^verbatim>\<open>exportPDF\<close> on a page with no export pending and a \<^verbatim>\<open>data-theme\<close> that is absent
  or a non-empty string: it captures the attribute, forces "light" and has not printed
  yet; when its timer fires, \<^verbatim>\<open>window.print()\<close> runs under "light" and the page is again
  exactly the page before the export (attribute, storage and all), an absent attribute
  being absent again.
\<close>

theorem export_restores_exactly:
  assumes "timers s = []" and "data_theme s \<noteq> Some []"
  shows "data_theme (exportPDF s) = Some ''light'' \<and>
         printed (exportPDF s) = printed s \<and>
         timers (exportPDF s) = [getAttribute (data_theme s)] \<and>
         run e [ExportClick, TimerFires] s = s\<lparr>printed := printed s @ [Some ''light'']\<rparr> \<and>
         data_theme (run e [ExportClick, TimerFires] s) = data_theme s \<and>
         (data_theme s = None \<longrightarrow> data_theme (run e [ExportClick, TimerFires] s) = None)"
proof -
  have r: "run e [ExportClick, TimerFires] s = s\<lparr>printed := printed s @ [Some ''light'']\<rparr>"
    using assms by (rule export_completes)
  show ?thesis
    unfolding r using assms by (simp add: exportPDF_forces_light)
qed

theorem export_restores_exactly_witness:
  "timers page_unset = [] \<and> data_theme page_unset \<noteq> Some [] \<and>
   timers page_dark = [] \<and> data_theme page_dark \<noteq> Some [] \<and>
   data_theme (run env_dark [ExportClick, TimerFires] page_unset) = None \<and>
   data_theme (run env_dark [ExportClick, TimerFires] page_dark) = Some ''dark''"
proof -
  have u: "timers page_unset = []" "data_theme page_unset \<noteq> Some []"
    by (simp_all add: page_unset_def)
  have d: "timers page_dark = []" "data_theme page_dark \<noteq> Some []"
    by (simp_all add: page_dark_def)
  have ru: "data_theme (run env_dark [ExportClick, TimerFires] page_unset) = data_theme page_unset"
    using export_restores_exactly [OF u, of env_dark] by blast
  have rd: "data_theme (run env_dark [ExportClick, TimerFires] page_dark) = data_theme page_dark"
    using export_restores_exactly [OF d, of env_dark] by blast
  show ?thesis
    unfolding ru rd using u d by (simp add: page_unset_def page_dark_def)
qed

text \<open>
  The one attribute value the restore does not give back: an empty \<^verbatim>\<open>data-theme\<close> is
  falsy in \<^verbatim>\<open>if (currentTheme)\<close>, so the attribute is removed.
\<close>

lemma export_empty_attribute:
  assumes "timers s = []" and "data_theme s = Some []"
  shows "run e [ExportClick, TimerFires] s =
           s\<lparr>data_theme := None, printed := printed s @ [Some ''light'']\<rparr>"
  using assms
  by (simp add: exportPDF_def exportPDF_callback_def getAttribute_def Let_def)

text \<open>
  C3. A second \<^verbatim>\<open>exportPDF\<close> started during the delay of the first, on a page whose
  theme is "dark": the second call captures the forced "light", the second print runs
  under the "dark" that the first callback restored, and the page ends with "light".
\<close>

theorem overlapping_exports_lose_theme:
  "run env_dark [ExportClick, ExportClick, TimerFires, TimerFires] page_dark =
     page_dark\<lparr>data_theme := Some ''light'', printed := [Some ''light'', Some ''dark'']\<rparr>"
  by (simp add: page_dark_def exportPDF_def exportPDF_callback_def getAttribute_def Let_def)


section \<open>Storage failures\<close>

text \<open>
  C4 states that \<^verbatim>\<open>init\<close> and \<^verbatim>\<open>switchTheme\<close> never throw when storage fails. With a
  storage that raises, on a page with the toggle button, both throw.
\<close>

theorem storage_failure_throws_counterexample:
  "thrown (ThemeManager_init env_blocked page_unset) = Some SecurityError \<and>
   thrown (switchTheme env_blocked page_unset) = Some QuotaExceededError"
  by (simp add: ThemeManager_init_def loadTheme_def getItem_def switchTheme_def setItem_def
        env_blocked_def page_unset_def Let_def)

lemma ThemeManager_init_raised:
  "toggle_button s \<Longrightarrow> getItem_raises e = Some err \<Longrightarrow> ThemeManager_init e s = Inl (err, s)"
  by (simp add: ThemeManager_init_def loadTheme_def getItem_def)

lemma ThemeManager_init_returns:
  "getItem_raises e = None \<Longrightarrow> thrown (ThemeManager_init e s) = None"
  by (simp add: ThemeManager_init_def loadTheme_def getItem_def)

lemma ThemeManager_init_no_button:
  "\<not> toggle_button s \<Longrightarrow> ThemeManager_init e s = Inr s"
  by (simp add: ThemeManager_init_def)

text \<open>
  C4, as the code has it. Nothing catches a storage failure. When the read raises and
  the toggle button exists, \<^verbatim>\<open>init\<close> throws that error with the page unchanged: no theme
  applied, no click listener registered. When the write raises, \<^verbatim>\<open>switchTheme\<close> has
  already applied the next theme to the attribute and throws that error with the storage
  unwritten. When the toggle button is missing \<^verbatim>\<open>init\<close> returns at once, and when the
  storage operation does not raise neither of the two throws.
\<close>

theorem storage_failure_propagates:
  "(toggle_button s \<and> getItem_raises e = Some err \<longrightarrow> ThemeManager_init e s = Inl (err, s)) \<and>
   (\<not> toggle_button s \<longrightarrow> ThemeManager_init e s = Inr s) \<and>
   (getItem_raises e = None \<longrightarrow> thrown (ThemeManager_init e s) = None) \<and>
   (setItem_raises e = Some err \<longrightarrow>
      switchTheme e s =
        Inl (err, s\<lparr>data_theme :=
                       Some (if data_theme s = Some ''dark'' then ''light''
                             else if data_theme s = Some ''light'' then ''dark''
                             else inverse_preferred e)\<rparr>)) \<and>
   (setItem_raises e = None \<longrightarrow> thrown (switchTheme e s) = None)"
proof (intro conjI impI)
  assume "toggle_button s \<and> getItem_raises e = Some err"
  then show "ThemeManager_init e s = Inl (err, s)"
    by (simp add: ThemeManager_init_raised)
next
  assume "\<not> toggle_button s"
  then show "ThemeManager_init e s = Inr s" by (rule ThemeManager_init_no_button)
next
  assume "getItem_raises e = None"
  then show "thrown (ThemeManager_init e s) = None" by (rule ThemeManager_init_returns)
next
  assume "setItem_raises e = Some err"
  then show "switchTheme e s =
        Inl (err, s\<lparr>data_theme :=
                       Some (if data_theme s = Some ''dark'' then ''light''
                             else if data_theme s = Some ''light'' then ''dark''
                             else inverse_preferred e)\<rparr>)"
    using switchTheme_raised[of e err s] by (simp add: switchTheme_attr)
next
  assume "setItem_raises e = None"
  then show "thrown (switchTheme e s) = None"
    by (simp add: switchTheme_def setItem_def Let_def)
qed

theorem storage_failure_propagates_witness:
  "toggle_button page_unset \<and> getItem_raises env_blocked = Some SecurityError \<and>
   setItem_raises env_blocked = Some QuotaExceededError \<and>
   getItem_raises env_dark = None \<and> setItem_raises env_dark = None \<and>
   ThemeManager_init env_blocked page_unset = Inl (SecurityError, page_unset) \<and>
   switchTheme env_blocked page_unset =
     Inl (QuotaExceededError, page_unset\<lparr>data_theme := Some ''light''\<rparr>) \<and>
   thrown (ThemeManager_init env_dark page_unset) = None \<and>
   thrown (switchTheme env_dark page_unset) = None"
proof -
  have b: "toggle_button page_unset" "data_theme page_unset = None"
    by (simp_all add: page_unset_def)
  have g: "getItem_raises env_blocked = Some SecurityError"
    "setItem_raises env_blocked = Some QuotaExceededError" "prefersDark env_blocked"
    by (simp_all add: env_blocked_def)
  have d: "getItem_raises env_dark = None" "setItem_raises env_dark = None"
    by (simp_all add: env_dark_def)
  show ?thesis
    using b g d storage_failure_propagates [of page_unset env_blocked SecurityError]
      storage_failure_propagates [of page_unset env_blocked QuotaExceededError]
      storage_failure_propagates [of page_unset env_dark]
    by (simp add: inverse_preferred_def)
qed

section \<open>Invariants of the event loop\<close>

text \<open>
  No handler makes the attribute or a pending capture the empty string, so the
  hypothesis \<open>data_theme s \<noteq> Some []\<close> of the export lemmas holds in every page reached
  from one that satisfies it.
\<close>

lemma dispatch_nonempty_theme:
  "nonempty_theme s \<Longrightarrow> nonempty_theme (dispatch e ev s)"
proof (cases ev)
  case ToggleClick
  assume "nonempty_theme s"
  moreover have "timers (page_of (switchTheme e s)) = timers s"
    by (cases "setItem_raises e") (simp_all add: switchTheme_def setItem_def Let_def)
  ultimately show ?thesis using ToggleClick
    by (simp add: nonempty_theme_def switchTheme_attr inverse_preferred_def)
next
  case ExportClick
  assume "nonempty_theme s"
  then show ?thesis using ExportClick
    by (auto simp: nonempty_theme_def exportPDF_def Let_def getAttribute_def split: option.splits)
next
  case TimerFires
  assume "nonempty_theme s"
  then show ?thesis using TimerFires
    by (cases "timers s"; cases "hd (timers s)")
       (auto simp: nonempty_theme_def exportPDF_callback_def Let_def)
qed

lemma run_nonempty_theme:
  "nonempty_theme s \<Longrightarrow> nonempty_theme (run e evs s)"
  by (induction evs arbitrary: s) (simp_all add: dispatch_nonempty_theme)

lemma loadTheme_nonempty_theme:
  "nonempty_theme s \<Longrightarrow> nonempty_theme (page_of (loadTheme e s))"
  by (cases "getItem_raises e"; cases "localStorage s STORAGE_KEY")
     (simp_all add: loadTheme_def getItem_def nonempty_theme_def)

lemma run_append: "run e (xs @ ys) s = run e ys (run e xs s)"
  by (induction xs arbitrary: s) simp_all

text \<open>
  Any number of exports that do not overlap, each completing before the next starts,
  leave the page as it was, each print under "light".
\<close>

lemma sequential_exports_restore:
  "timers s = [] \<Longrightarrow> data_theme s \<noteq> Some [] \<Longrightarrow>
   run e (concat (replicate n [ExportClick, TimerFires])) s =
     s\<lparr>printed := printed s @ replicate n (Some ''light'')\<rparr>"
proof (induction n arbitrary: s)
  case 0
  then show ?case by simp
next
  case (Suc n)
  let ?s' = "s\<lparr>printed := printed s @ [Some ''light'']\<rparr>"
  have r: "run e [ExportClick, TimerFires] s = ?s'"
    using Suc.prems by (rule export_completes)
  have "run e (concat (replicate (Suc n) [ExportClick, TimerFires])) s =
        run e (concat (replicate n [ExportClick, TimerFires])) (run e [ExportClick, TimerFires] s)"
    using run_append[of e "[ExportClick, TimerFires]"] by simp
  also have "\<dots> = ?s'\<lparr>printed := printed ?s' @ replicate n (Some ''light'')\<rparr>"
    unfolding r using Suc.prems by (intro Suc.IH) simp_all
  finally show ?case by (simp add: replicate_append_same)
qed

section \<open>Consistency of the attribute and the stored value\<close>

text \<open>
  C6 states that after any mutation by a theme writer the attribute equals the stored
  value. On a page with "dark" applied and stored, the call of \<^verbatim>\<open>exportPDF\<close> returns
  with the attribute "light" and the stored value "dark".
\<close>

theorem export_breaks_consistency_counterexample:
  "data_theme page_dark = persisted page_dark \<and>
   data_theme (dispatch env_dark ExportClick page_dark) = Some ''light'' \<and>
   persisted (dispatch env_dark ExportClick page_dark) = Some ''dark''"
  by (simp add: page_dark_def persisted_def exportPDF_def Let_def)

lemma switchTheme_timers: "timers (page_of (switchTheme e s)) = timers s"
  by (cases "setItem_raises e") (simp_all add: switchTheme_def setItem_def Let_def)

lemma settled_operation:
  assumes ok: "setItem_raises e = None" and s: "settled s"
  shows "settled (run e (events_of opn) s)"
proof (cases opn)
  case Toggle
  have "data_theme (page_of (switchTheme e s)) \<noteq> Some []"
    by (simp add: switchTheme_attr inverse_preferred_def)
  then show ?thesis
    using Toggle s switchTheme_persisted[OF ok, of s]
    by (simp add: settled_def switchTheme_timers)
next
  case Export
  have ts: "timers s = []" and ne: "data_theme s \<noteq> Some []"
    using s unfolding settled_def by blast+
  have r: "run e [ExportClick, TimerFires] s = s\<lparr>printed := printed s @ [Some ''light'']\<rparr>"
    using ts ne by (rule export_completes)
  have "settled (s\<lparr>printed := printed s @ [Some ''light'']\<rparr>) = settled s"
    by (simp add: settled_def persisted_def)
  then show ?thesis
    using s unfolding Export events_of.simps r by blast
qed

lemma settled_operations:
  "setItem_raises e = None \<Longrightarrow> settled s \<Longrightarrow> settled (run e (concat (map events_of ops)) s)"
proof (induction ops arbitrary: s)
  case Nil
  then show ?case by simp
next
  case (Cons opn ops)
  have "settled (run e (events_of opn) s)"
    using Cons.prems by (rule settled_operation)
  then have "settled (run e (concat (map events_of ops)) (run e (events_of opn) s))"
    using Cons.prems(1) by (intro Cons.IH)
  then show ?case by (simp add: run_append)
qed

text \<open>
  C6, as the code has it. After a \<^verbatim>\<open>switchTheme\<close> whose write is accepted the attribute
  equals the stored value, which is "light" or "dark". \<^verbatim>\<open>exportPDF\<close> never writes
  storage: right after its call the attribute is "light" whatever is stored. When its
  callback is the next handler to run, with no other export pending and an attribute that
  was not the empty string, the attribute and the stored value are both what they were
  before the export. Hence, from a page with no export pending whose attribute is not
  empty and equals the stored value, any sequence of toggles with accepted writes and of
  exports each followed at once by its callback ends with the attribute equal to the
  stored value and no export pending.
\<close>

theorem theme_writers_consistency:
  "(setItem_raises e = None \<longrightarrow>
      data_theme (dispatch e ToggleClick s) = persisted (dispatch e ToggleClick s) \<and>
      (persisted (dispatch e ToggleClick s) = Some ''light'' \<or>
       persisted (dispatch e ToggleClick s) = Some ''dark'')) \<and>
   data_theme (dispatch e ExportClick s) = Some ''light'' \<and>
   persisted (dispatch e ExportClick s) = persisted s \<and>
   (timers s = [] \<and> data_theme s \<noteq> Some [] \<longrightarrow>
      data_theme (run e [ExportClick, TimerFires] s) = data_theme s \<and>
      persisted (run e [ExportClick, TimerFires] s) = persisted s) \<and>
   (setItem_raises e = None \<and> timers s = [] \<and> data_theme s \<noteq> Some [] \<and>
    data_theme s = persisted s \<longrightarrow>
      data_theme (run e (concat (map events_of ops)) s) =
        persisted (run e (concat (map events_of ops)) s) \<and>
      timers (run e (concat (map events_of ops)) s) = [])"
proof (intro conjI impI)
  assume ok: "setItem_raises e = None"
  show c: "data_theme (dispatch e ToggleClick s) = persisted (dispatch e ToggleClick s)"
    using switchTheme_persisted[OF ok, of s] by simp
  show "persisted (dispatch e ToggleClick s) = Some ''light'' \<or>
        persisted (dispatch e ToggleClick s) = Some ''dark''"
    unfolding c[symmetric] by (simp add: switchTheme_attr inverse_preferred_def)
next
  show "data_theme (dispatch e ExportClick s) = Some ''light''"
    by (simp add: exportPDF_forces_light)
next
  show "persisted (dispatch e ExportClick s) = persisted s"
    by (simp add: exportPDF_forces_light persisted_def)
next
  assume h: "timers s = [] \<and> data_theme s \<noteq> Some []"
  have r: "run e [ExportClick, TimerFires] s = s\<lparr>printed := printed s @ [Some ''light'']\<rparr>"
    using h export_completes[of s e] by blast
  show "data_theme (run e [ExportClick, TimerFires] s) = data_theme s"
    unfolding r by simp
  show "persisted (run e [ExportClick, TimerFires] s) = persisted s"
    unfolding r by (simp add: persisted_def)
next
  assume h: "setItem_raises e = None \<and> timers s = [] \<and> data_theme s \<noteq> Some [] \<and>
    data_theme s = persisted s"
  then have ok: "setItem_raises e = None" and st: "settled s"
    unfolding settled_def by blast+
  have "settled (run e (concat (map events_of ops)) s)"
    using ok st by (rule settled_operations)
  then show "data_theme (run e (concat (map events_of ops)) s) =
        persisted (run e (concat (map events_of ops)) s)"
    and "timers (run e (concat (map events_of ops)) s) = []"
    by (simp_all add: settled_def)
qed

theorem theme_writers_consistency_witness:
  "setItem_raises env_dark = None \<and> timers page_dark = [] \<and> data_theme page_dark \<noteq> Some [] \<and>
   data_theme page_dark = persisted page_dark \<and>
   data_theme (dispatch env_dark ToggleClick page_dark) = Some ''light'' \<and>
   persisted (dispatch env_dark ToggleClick page_dark) = Some ''light'' \<and>
   data_theme (run env_dark [ExportClick, TimerFires] page_dark) = Some ''dark'' \<and>
   persisted (run env_dark [ExportClick, TimerFires] page_dark) = Some ''dark'' \<and>
   data_theme (run env_dark (concat (map events_of [Export, Toggle, Export])) page_dark) =
     persisted (run env_dark (concat (map events_of [Export, Toggle, Export])) page_dark) \<and>
   data_theme (run env_dark (concat (map events_of [Export, Toggle, Export])) page_dark) = Some ''light''"
proof -
  have h: "setItem_raises env_dark = None" "timers page_dark = []"
    "data_theme page_dark \<noteq> Some []" "data_theme page_dark = Some ''dark''"
    "persisted page_dark = Some ''dark''" "data_theme page_dark = persisted page_dark"
    by (simp_all add: env_dark_def page_dark_def persisted_def)
  have t: "data_theme (dispatch env_dark ToggleClick page_dark) = Some ''light''"
    using h by (simp add: switchTheme_attr)
  have c: "data_theme (dispatch env_dark ToggleClick page_dark) =
             persisted (dispatch env_dark ToggleClick page_dark)"
    and x: "data_theme (run env_dark [ExportClick, TimerFires] page_dark) = data_theme page_dark"
    and y: "persisted (run env_dark [ExportClick, TimerFires] page_dark) = persisted page_dark"
    and z: "data_theme (run env_dark (concat (map events_of [Export, Toggle, Export])) page_dark) =
     persisted (run env_dark (concat (map events_of [Export, Toggle, Export])) page_dark)"
    using h theme_writers_consistency [of env_dark page_dark "[Export, Toggle, Export]"] by blast+
  have v: "data_theme (run env_dark (concat (map events_of [Export, Toggle, Export])) page_dark) = Some ''light''"
    by (simp add: page_dark_def env_dark_def exportPDF_def exportPDF_callback_def switchTheme_def
          setItem_def getAttribute_def Let_def)
  show ?thesis
    using h t c x y z v by simp
qed

text \<open>
  A \<^verbatim>\<open>switchTheme\<close> that runs between \<^verbatim>\<open>exportPDF\<close> and its callback is outside the
  statement above: the callback then puts back the attribute captured before the toggle,
  while the stored value is the one the toggle wrote.
\<close>

lemma toggle_during_export_delay:
  assumes "setItem_raises e = None" and "timers s = []" and "data_theme s = Some ''light''"
  shows "data_theme (run e [ExportClick, ToggleClick, TimerFires] s) = Some ''light'' \<and>
         persisted (run e [ExportClick, ToggleClick, TimerFires] s) = Some ''dark''"
  using assms
  by (simp add: exportPDF_def exportPDF_callback_def switchTheme_def setItem_def
        getAttribute_def persisted_def Let_def)

section \<open>Navigation highlighting\<close>

lemma getAttribute_eq_Str: "getAttribute a = Str t \<longleftrightarrow> a = Some t"
  by (cases a) (simp_all add: getAttribute_def)

lemma ACTIVE_add: "classList_contains ACTIVE (classList_add ACTIVE cs)"
  by (simp add: classList_contains_def classList_add_def)

lemma ACTIVE_remove: "\<not> classList_contains ACTIVE (classList_remove ACTIVE cs)"
  by (simp add: classList_contains_def classList_remove_def)

lemma classList_add_idem: "classList_add c (classList_add c cs) = classList_add c cs"
  by (simp add: classList_add_def)

lemma classList_remove_idem: "classList_remove c (classList_remove c cs) = classList_remove c cs"
  by (simp add: classList_remove_def)

lemma setActive_href: "map href (setActive sid links) = map href links"
  by (simp add: setActive_def)

lemma setActive_flags: "map is_active (setActive sid links) = map (matches sid) links"
  by (simp add: setActive_def is_active_def matches_def getAttribute_eq_Str ACTIVE_add ACTIVE_remove)

lemma setActive_member:
  "l \<in> set (setActive sid links) \<Longrightarrow> is_active l \<longleftrightarrow> matches sid l"
  by (auto simp: setActive_def is_active_def matches_def getAttribute_eq_Str ACTIVE_add ACTIVE_remove)

lemma setActive_idem: "setActive sid (setActive sid links) = setActive sid links"
  by (simp add: setActive_def classList_add_idem classList_remove_idem)

lemma setActive_count:
  "length (filter is_active (setActive sid links)) = length (filter (matches sid) links)"
proof -
  have "length (filter is_active (setActive sid links)) =
        length (filter (\<lambda>b. b) (map is_active (setActive sid links)))"
    by (simp add: filter_map comp_def)
  also have "\<dots> = length (filter (\<lambda>b. b) (map (matches sid) links))"
    by (simp only: setActive_flags)
  also have "\<dots> = length (filter (matches sid) links)"
    by (simp add: filter_map comp_def)
  finally show ?thesis .
qed

text \<open>
  C7. After \<^verbatim>\<open>setActive(id)\<close> a link carries \<^verbatim>\<open>nav__link--active\<close> exactly when its
  \<^verbatim>\<open>href\<close> is "#" followed by the id; the links and their hrefs are the same, so as
  many links are active as match (exactly one when exactly one matches); a second call
  with the same id changes nothing.
\<close>

theorem setActive_marks_matching_idempotent:
  "(\<forall>l \<in> set (setActive sid links). is_active l \<longleftrightarrow> href l = Some (''#'' @ to_string sid)) \<and>
   map href (setActive sid links) = map href links \<and>
   map is_active (setActive sid links) = map (\<lambda>l. href l = Some (''#'' @ to_string sid)) links \<and>
   length (filter is_active (setActive sid links)) =
     length (filter (\<lambda>l. href l = Some (''#'' @ to_string sid)) links) \<and>
   setActive sid (setActive sid links) = setActive sid links"
proof (intro conjI ballI)
  fix l assume "l \<in> set (setActive sid links)"
  then show "is_active l \<longleftrightarrow> href l = Some (''#'' @ to_string sid)"
    using setActive_member[of l sid links] by (simp add: matches_def)
next
  show "map href (setActive sid links) = map href links" by (rule setActive_href)
next
  show "map is_active (setActive sid links) = map (\<lambda>l. href l = Some (''#'' @ to_string sid)) links"
    using setActive_flags[of sid links] by (simp add: matches_def[abs_def])
next
  show "length (filter is_active (setActive sid links)) =
     length (filter (\<lambda>l. href l = Some (''#'' @ to_string sid)) links)"
    using setActive_count[of sid links] by (simp add: matches_def[abs_def])
next
  show "setActive sid (setActive sid links) = setActive sid links" by (rule setActive_idem)
qed

theorem setActive_marks_matching_idempotent_witness:
  "setActive (Str ''skills'') nav_links =
     [\<lparr>href = Some ''#about'', classList = [''nav__link'']\<rparr>,
      \<lparr>href = Some ''#skills'', classList = [''nav__link'', ''nav__link--active'']\<rparr>,
      \<lparr>href = None, classList = [''nav__link'']\<rparr>] \<and>
   map is_active (setActive (Str ''skills'') nav_links) = [False, True, False] \<and>
   setActive (Str ''skills'') (setActive (Str ''skills'') nav_links) =
     setActive (Str ''skills'') nav_links"
proof -
  have v: "setActive (Str ''skills'') nav_links =
     [\<lparr>href = Some ''#about'', classList = [''nav__link'']\<rparr>,
      \<lparr>href = Some ''#skills'', classList = [''nav__link'', ''nav__link--active'']\<rparr>,
      \<lparr>href = None, classList = [''nav__link'']\<rparr>]"
    by (simp add: setActive_def nav_links_def getAttribute_def classList_add_def
          classList_remove_def ACTIVE_def)
  have f: "map is_active (setActive (Str ''skills'') nav_links) =
             map (\<lambda>l. href l = Some (''#'' @ to_string (Str ''skills''))) nav_links"
    and i: "setActive (Str ''skills'') (setActive (Str ''skills'') nav_links) =
              setActive (Str ''skills'') nav_links"
    using setActive_marks_matching_idempotent [of "Str ''skills''" nav_links, THEN conjunct2, THEN conjunct2, THEN conjunct1]
      setActive_marks_matching_idempotent [of "Str ''skills''" nav_links, THEN conjunct2, THEN conjunct2, THEN conjunct2, THEN conjunct2]
    by - assumption+
  have g: "map (\<lambda>l. href l = Some (''#'' @ to_string (Str ''skills''))) nav_links = [False, True, False]"
    by (simp add: nav_links_def)
  show ?thesis using v f i g by simp
qed

lemma handleIntersect_none:
  "filter isIntersecting ens = [] \<Longrightarrow> handleIntersect ens links = links"
  by (induction ens arbitrary: links) (simp_all split: if_splits)

lemma handleIntersect_href: "map href (handleIntersect ens links) = map href links"
  by (induction ens arbitrary: links) (simp_all add: setActive_href)

lemma handleIntersect_snoc:
  "handleIntersect (ens @ [en]) links =
     (if isIntersecting en then setActive (getAttribute (target_id en)) (handleIntersect ens links)
      else handleIntersect ens links)"
  by (induction ens arbitrary: links) simp_all

lemma map_matches_cong:
  assumes "map href ks = map href links"
  shows "map (matches sid) ks = map (matches sid) links"
proof -
  have m: "map (matches sid) xs = map (\<lambda>h. h = Some (''#'' @ to_string sid)) (map href xs)" for xs
    by (simp add: matches_def[abs_def] comp_def)
  show ?thesis unfolding m assms ..
qed

lemma handleIntersect_last:
  "filter isIntersecting ens \<noteq> [] \<Longrightarrow>
   map is_active (handleIntersect ens links) =
     map (matches (getAttribute (target_id (last (filter isIntersecting ens))))) links"
proof (induction ens rule: rev_induct)
  case Nil
  then show ?case by simp
next
  case (snoc en ens)
  show ?case
  proof (cases "isIntersecting en")
    case True
    let ?sid = "getAttribute (target_id en)"
    have "map is_active (handleIntersect (ens @ [en]) links) =
          map (matches ?sid) (handleIntersect ens links)"
      using True by (simp add: handleIntersect_snoc setActive_flags)
    also have "\<dots> = map (matches ?sid) links"
      by (rule map_matches_cong) (rule handleIntersect_href)
    finally show ?thesis using True by simp
  next
    case False
    then show ?thesis using snoc by (simp add: handleIntersect_snoc)
  qed
qed

text \<open>
  C8. \<^verbatim>\<open>handleIntersect\<close> takes the entries of a batch in order, each intersecting one
  calling \<^verbatim>\<open>setActive\<close> on the result of the ones before it. A batch with no
  intersecting entry changes nothing; otherwise the links active at the end are exactly
  those whose \<^verbatim>\<open>href\<close> is "#" followed by the id of the last intersecting entry.
\<close>

theorem handleIntersect_last_write_wins:
  "handleIntersect (ens @ [en]) links =
     (if isIntersecting en then setActive (getAttribute (target_id en)) (handleIntersect ens links)
      else handleIntersect ens links) \<and>
   map href (handleIntersect ens links) = map href links \<and>
   (filter isIntersecting ens = [] \<longrightarrow> handleIntersect ens links = links) \<and>
   (filter isIntersecting ens \<noteq> [] \<longrightarrow>
      map is_active (handleIntersect ens links) =
        map (\<lambda>l. href l =
                  Some (''#'' @ to_string (getAttribute (target_id (last (filter isIntersecting ens))))))
            links)"
proof (intro conjI impI)
  show "handleIntersect (ens @ [en]) links =
     (if isIntersecting en then setActive (getAttribute (target_id en)) (handleIntersect ens links)
      else handleIntersect ens links)" by (rule handleIntersect_snoc)
next
  show "map href (handleIntersect ens links) = map href links" by (rule handleIntersect_href)
next
  assume "filter isIntersecting ens = []"
  then show "handleIntersect ens links = links" by (rule handleIntersect_none)
next
  assume "filter isIntersecting ens \<noteq> []"
  then show "map is_active (handleIntersect ens links) =
        map (\<lambda>l. href l =
                  Some (''#'' @ to_string (getAttribute (target_id (last (filter isIntersecting ens))))))
            links"
    using handleIntersect_last[of ens links] by (simp add: matches_def[abs_def])
qed

theorem handleIntersect_last_write_wins_witness:
  "filter isIntersecting batch_about_skills \<noteq> [] \<and>
   target_id (last (filter isIntersecting batch_about_skills)) = Some ''skills'' \<and>
   map href (handleIntersect batch_about_skills nav_links) = [Some ''#about'', Some ''#skills'', None] \<and>
   map is_active (handleIntersect batch_about_skills nav_links) = [False, True, False]"
proof -
  have n: "filter isIntersecting batch_about_skills \<noteq> []"
    and l: "target_id (last (filter isIntersecting batch_about_skills)) = Some ''skills''"
    by (simp_all add: batch_about_skills_def)
  have h: "map href (handleIntersect batch_about_skills nav_links) = map href nav_links"
    and a: "map is_active (handleIntersect batch_about_skills nav_links) =
        map (\<lambda>l. href l =
                  Some (''#'' @ to_string (getAttribute (target_id (last (filter isIntersecting batch_about_skills))))))
            nav_links"
    using handleIntersect_last_write_wins [where ens = batch_about_skills and links = nav_links, THEN conjunct2, THEN conjunct1]
      handleIntersect_last_write_wins [where ens = batch_about_skills and links = nav_links, THEN conjunct2, THEN conjunct2, THEN conjunct2, THEN mp, OF n]
    by - assumption+
  show ?thesis
    unfolding h a l using n l by (simp add: nav_links_def getAttribute_def)
qed

section \<open>The certificate modal\<close>

text \<open>
  The copy of \<^verbatim>\<open>open\<close> with the guard \<^verbatim>\<open>if (!certSrc) return\<close> leaves the modal as it
  is on a missing or empty source, and is \<^verbatim>\<open>open\<close> of src/main.js otherwise.
\<close>

lemma CertModal_open_card_guard:
  "data_cert c = None \<or> data_cert c = Some [] \<Longrightarrow> CertModal_open_card c m = Inr m"
  by (auto simp: CertModal_open_card_def dataset_def Let_def)

lemma CertModal_open_card_valid:
  "data_cert c = Some t \<Longrightarrow> t \<noteq> [] \<Longrightarrow> CertModal_open_card c m = CertModal_open c m"
  by (simp add: CertModal_open_card_def CertModal_open_def dataset_def Let_def)

text \<open>
  C5. \<^verbatim>\<open>open\<close> of src/main.js on a trigger without \<^verbatim>\<open>data-cert\<close>, the modal closed:
  the image source becomes "undefined", the title fields are rewritten, the modal is
  shown, the page scroll is suspended and the close button takes the focus.
\<close>

theorem open_without_source_shows_modal:
  "CertModal_open \<lparr>data_cert = None, data_title = Some ''AWS''\<rparr> modal_closed =
     Inr (modal_closed\<lparr>modalImg := Some \<lparr>src = ''undefined'', alt = ''Certificado AWS''\<rparr>,
                       modalTitle := Some ''AWS'', hidden := False,
                       body_overflow := ''hidden'', closeBtn_focused := True\<rparr>)"
  by (simp add: CertModal_open_def show_cert_def dataset_def modal_closed_def Let_def)

lemma CertModal_close_idem: "CertModal_close (CertModal_close m) = CertModal_close m"
  by (simp add: CertModal_close_def)

end
